theory Spec2Isabelle
  imports Complex_Main "HOL-Library.Word"
begin

unbundle bit_operations_syntax

section \<open>Platform primitives\<close>

text \<open>
  Modelled from the spec: the browser facilities that \<^verbatim>\<open>AuthService\<close> and
  \<^verbatim>\<open>CryptoService\<close> call and that are no part of the repository, namely WebCrypto
  (PBKDF2, AES-GCM, key import and export), the text codecs with \<^verbatim>\<open>JSON\<close>, and base-64.
  They follow sections 4.1, 4.2 and 8 of the specification and the standards behind
  them:
  \<^item> PBKDF2 with HMAC-SHA-256 uses the password as the HMAC key, and HMAC brings a key
    to one block of 64 bytes first: a longer key is replaced by its SHA-256 digest, and
    the key is filled up with zero bytes. That step is computed as it stands. What
    follows it (the iterated HMAC over the salt) is kept as a term of the key block and
    the salt, so two derivations agree exactly when key block and salt agree;
  \<^item> a generated or imported key is its raw bytes; the bytes are not measured;
  \<^item> an AES-GCM ciphertext is the term made of key, nonce and plaintext, so decryption
    under the key and nonce used for encryption returns the plaintext and decryption
    under anything else fails authentication;
  \<^item> \<^verbatim>\<open>JSON.stringify\<close> maps a value to the JSON data it denotes and \<^verbatim>\<open>JSON.parse\<close>
    maps JSON data back to a value; a text is either the JSON text of some JSON data
    or the decoding of binary data, which does not parse and does not import as a key;
  \<^item> binary fields are persisted base-64 encoded; \<^verbatim>\<open>b64dec\<close> undoes \<^verbatim>\<open>b64enc\<close>, and the model
    keeps the decoded bytes.
  An \<^verbatim>\<open>await\<close> is a plain sequencing point: every call runs to completion alone.
  Random draws and the clock are inputs of the call that makes them.
\<close>

type_synonym bytes = "8 word list"

text \<open>
  The errors the service throws, named after the specification's taxonomy:
  \<^verbatim>\<open>'Account not found'\<close>, \<^verbatim>\<open>'Master access not configured for this account.'\<close>,
  \<^verbatim>\<open>'Invalid password.'\<close>, \<^verbatim>\<open>'Not logged in'\<close>, \<^verbatim>\<open>'Account not configured for master unwrap'\<close>,
  \<^verbatim>\<open>'Master meta not initialized'\<close>, a persisted value of the wrong shape, and the
  exceptions of the platform calls.
\<close>

datatype error =
    AccountNotFound
  | MasterNotConfigured
  | InvalidPassword
  | NotLoggedIn
  | AccountNotMasterEnabled
  | MasterMetaNotInitialized
  | CorruptState
  | OperationError
  | DataError
  | InvalidAccessError
  | SyntaxError

subsection \<open>SHA-256 and the HMAC key block\<close>

text \<open>
  The round constants and the initial hash value of FIPS 180-4, as numbers.
\<close>

definition sha256_K :: "32 word list" where
  "sha256_K =
    [1116352408, 1899447441, 3049323471, 3921009573, 961987163, 1508970993,
     2453635748, 2870763221, 3624381080, 310598401, 607225278, 1426881987,
     1925078388, 2162078206, 2614888103, 3248222580, 3835390401, 4022224774,
     264347078, 604807628, 770255983, 1249150122, 1555081692, 1996064986,
     2554220882, 2821834349, 2952996808, 3210313671, 3336571891, 3584528711,
     113926993, 338241895, 666307205, 773529912, 1294757372, 1396182291,
     1695183700, 1986661051, 2177026350, 2456956037, 2730485921, 2820302411,
     3259730800, 3345764771, 3516065817, 3600352804, 4094571909, 275423344,
     430227734, 506948616, 659060556, 883997877, 958139571, 1322822218,
     1537002063, 1747873779, 1955562222, 2024104815, 2227730452, 2361852424,
     2428436474, 2756734187, 3204031479, 3329325298]"

definition sha256_H0 :: "32 word list" where
  "sha256_H0 =
    [1779033703, 3144134277, 1013904242, 2773480762, 1359893119, 2600822924,
     528734635, 1541459225]"

definition be_word :: "8 word \<Rightarrow> 8 word \<Rightarrow> 8 word \<Rightarrow> 8 word \<Rightarrow> 32 word" where
  "be_word a b c d =
     push_bit 24 (ucast a) OR push_bit 16 (ucast b) OR push_bit 8 (ucast c) OR ucast d"

fun be_words :: "bytes \<Rightarrow> 32 word list" where
  "be_words (a # b # c # d # rest) = be_word a b c d # be_words rest"
| "be_words _ = []"

definition be_bytes :: "32 word \<Rightarrow> bytes" where
  "be_bytes w = [ucast (drop_bit 24 w), ucast (drop_bit 16 w), ucast (drop_bit 8 w), ucast w]"

text \<open>
  The message is followed by the byte \<open>0x80\<close>, by zero bytes up to 56 modulo 64, and
  by its length in bits as eight bytes, most significant first.
\<close>

definition sha256_pad :: "bytes \<Rightarrow> bytes" where
  "sha256_pad msg =
     msg @ [0x80] @ replicate ((119 - length msg mod 64) mod 64) 0 @
     map (\<lambda>i. ucast (drop_bit (8 * (7 - i)) (word_of_nat (8 * length msg) :: 64 word)))
       [0..<8]"

fun sha256_schedule :: "nat \<Rightarrow> 32 word list \<Rightarrow> 32 word list" where
  "sha256_schedule 0 w = w"
| "sha256_schedule (Suc n) w =
     (let t = length w;
          x = w ! (t - 15);
          y = w ! (t - 2);
          s0 = word_rotr 7 x XOR word_rotr 18 x XOR drop_bit 3 x;
          s1 = word_rotr 17 y XOR word_rotr 19 y XOR drop_bit 10 y
      in sha256_schedule n (w @ [w ! (t - 16) + s0 + w ! (t - 7) + s1]))"

fun sha256_round :: "32 word list \<Rightarrow> 32 word \<times> 32 word \<Rightarrow> 32 word list" where
  "sha256_round [a, b, c, d, e, f, g, h] (k, w) =
     (let S1 = word_rotr 6 e XOR word_rotr 11 e XOR word_rotr 25 e;
          ch = (e AND f) XOR (NOT e AND g);
          T1 = h + S1 + ch + k + w;
          S0 = word_rotr 2 a XOR word_rotr 13 a XOR word_rotr 22 a;
          mj = (a AND b) XOR (a AND c) XOR (b AND c);
          T2 = S0 + mj
      in [T1 + T2, a, b, c, d + T1, e, f, g])"
| "sha256_round v _ = v"

definition sha256_block :: "32 word list \<Rightarrow> 32 word list \<Rightarrow> 32 word list" where
  "sha256_block H m =
     map2 (+) H (foldl sha256_round H (zip sha256_K (sha256_schedule 48 m)))"

definition sha256 :: "bytes \<Rightarrow> bytes" where
  "sha256 msg =
     (let ws = be_words (sha256_pad msg)
      in concat (map be_bytes
           (foldl (\<lambda>H i. sha256_block H (take 16 (drop (16 * i) ws))) sha256_H0
              [0..<length ws div 16])))"

definition hmac_key_block :: "bytes \<Rightarrow> bytes" where
  "hmac_key_block key =
     (let k = (if length key > 64 then sha256 key else key)
      in k @ replicate (64 - length k) 0)"

text \<open>
  \<^verbatim>\<open>TextEncoder\<close> on a password. A \<^typ>\<open>char\<close> is one code unit below 256: below 128 it
  is one byte of UTF-8, from 128 on it is two.
\<close>

definition utf8_char :: "char \<Rightarrow> bytes" where
  "utf8_char c =
     (let n = (of_char c :: nat)
      in if n < 128 then [word_of_nat n]
         else [word_of_nat (192 + n div 64), word_of_nat (128 + n mod 64)])"

definition utf8_bytes :: "string \<Rightarrow> bytes" where
  "utf8_bytes s = concat (map utf8_char s)"

datatype cryptokey = Pbkdf2Key bytes bytes | AesKey bytes

subsection \<open>Values and JSON\<close>

text \<open>
  The notes are \<^verbatim>\<open>any[]\<close>. A value here is JSON-like data together with what JSON
  cannot denote and \<^verbatim>\<open>JSON.stringify\<close> silently changes: \<^verbatim>\<open>undefined\<close> and the numbers
  that are not finite. Finite numbers are kept as reals (negative zero is zero). An
  object is the list of its own properties in enumeration order. Functions and symbols
  serialise as \<^verbatim>\<open>undefined\<close> does; values on which \<^verbatim>\<open>JSON.stringify\<close> throws or calls
  \<^verbatim>\<open>toJSON\<close> are not represented.
\<close>

datatype js_number = Finite real | NaN | PosInfinity | NegInfinity

datatype js_value =
    JsUndefined
  | JsNull
  | JsBool bool
  | JsNum js_number
  | JsStr string
  | JsArr "js_value list"
  | JsObj "(string \<times> js_value) list"

datatype json =
    JNull
  | JBool bool
  | JNum real
  | JStr string
  | JArr "json list"
  | JObj "(string \<times> json) list"

datatype js_text = JsonText json | BinaryText bytes

datatype buffer = RawBytes bytes | Utf8Bytes js_text

datatype ciphertext = AesGcm cryptokey bytes buffer

text \<open>
  What \<^verbatim>\<open>JSON.stringify\<close> writes for a value, \<open>None\<close> where it writes nothing
  (\<^verbatim>\<open>undefined\<close>): a number that is not finite becomes \<^verbatim>\<open>null\<close>, a member of an array
  that has no JSON becomes \<^verbatim>\<open>null\<close>, a property that has no JSON is left out.
\<close>

definition member_json :: "json option \<Rightarrow> json" where
  "member_json r = (case r of None \<Rightarrow> JNull | Some j \<Rightarrow> j)"

definition property_json :: "string \<times> json option \<Rightarrow> (string \<times> json) list" where
  "property_json p = (case snd p of None \<Rightarrow> [] | Some j \<Rightarrow> [(fst p, j)])"

primrec to_json :: "js_value \<Rightarrow> json option" where
  "to_json JsUndefined = None"
| "to_json JsNull = Some JNull"
| "to_json (JsBool b) = Some (JBool b)"
| "to_json (JsNum n) = Some (case n of Finite r \<Rightarrow> JNum r | _ \<Rightarrow> JNull)"
| "to_json (JsStr s) = Some (JStr s)"
| "to_json (JsArr xs) = Some (JArr (map member_json (map to_json xs)))"
| "to_json (JsObj ps) = Some (JObj (concat (map property_json (map (map_prod id to_json) ps))))"

primrec of_json :: "json \<Rightarrow> js_value" where
  "of_json JNull = JsNull"
| "of_json (JBool b) = JsBool b"
| "of_json (JNum r) = JsNum (Finite r)"
| "of_json (JStr s) = JsStr s"
| "of_json (JArr js) = JsArr (map of_json js)"
| "of_json (JObj ps) = JsObj (map (map_prod id of_json) ps)"

text \<open>\<^verbatim>\<open>JSON.stringify\<close> on an array, which is all the service hands to it.\<close>

definition JSON_stringify :: "js_value list \<Rightarrow> js_text" where
  "JSON_stringify notes = JsonText (member_json (to_json (JsArr notes)))"

fun JSON_parse :: "js_text \<Rightarrow> error + js_value" where
  "JSON_parse (JsonText j) = Inr (of_json j)"
| "JSON_parse (BinaryText _) = Inl SyntaxError"

text \<open>The values that JSON denotes as they are.\<close>

primrec json_safe :: "js_value \<Rightarrow> bool" where
  "json_safe JsUndefined = False"
| "json_safe JsNull = True"
| "json_safe (JsBool b) = True"
| "json_safe (JsNum n) = (case n of Finite r \<Rightarrow> True | _ \<Rightarrow> False)"
| "json_safe (JsStr s) = True"
| "json_safe (JsArr xs) = list_all id (map json_safe xs)"
| "json_safe (JsObj ps) = list_all snd (map (map_prod id json_safe) ps)"

text \<open>
  The bytes of a JSON text are kept as the text: \<^verbatim>\<open>TextDecoder\<close> undoes \<^verbatim>\<open>TextEncoder\<close>
  on it, and decodes other bytes to a text that is no JSON.
\<close>

definition TextEncoder_encode :: "js_text \<Rightarrow> buffer" where
  "TextEncoder_encode t = Utf8Bytes t"

fun TextDecoder_decode :: "buffer \<Rightarrow> js_text" where
  "TextDecoder_decode (Utf8Bytes t) = t"
| "TextDecoder_decode (RawBytes b) = BinaryText b"

definition subtle_encrypt :: "bytes \<Rightarrow> cryptokey \<Rightarrow> buffer \<Rightarrow> ciphertext" where
  "subtle_encrypt nonce key pt = AesGcm key nonce pt"

fun subtle_decrypt :: "bytes \<Rightarrow> cryptokey \<Rightarrow> ciphertext \<Rightarrow> error + buffer" where
  "subtle_decrypt nonce key (AesGcm k n pt) =
     (if k = key \<and> n = nonce then Inr pt else Inl OperationError)"

text \<open>
  \<^verbatim>\<open>String.prototype.trim\<close> removes white space and line terminators from both ends.
  The white-space code units below 256 are TAB, LF, VT, FF, CR, SPACE and NBSP.
\<close>

definition is_white_space :: "char \<Rightarrow> bool" where
  "is_white_space c \<longleftrightarrow>
     c \<in> set [CHR 0x09, CHR 0x0A, CHR 0x0B, CHR 0x0C, CHR 0x0D, CHR 0x20, CHR 0xA0]"

definition trim :: "string \<Rightarrow> string" where
  "trim s = rev (dropWhile is_white_space (rev (dropWhile is_white_space s)))"

section \<open>CryptoService\<close>

record envelope =
  iv :: bytes
  data :: ciphertext

definition deriveKEK :: "string \<Rightarrow> bytes \<Rightarrow> cryptokey" where
  "deriveKEK password saltB64 = Pbkdf2Key (hmac_key_block (utf8_bytes password)) saltB64"

text \<open>Keys made by \<^verbatim>\<open>deriveKey\<close> are not extractable; generated and imported ones are.\<close>

fun exportDEK :: "cryptokey \<Rightarrow> error + bytes" where
  "exportDEK (AesKey raw) = Inr raw"
| "exportDEK (Pbkdf2Key _ _) = Inl InvalidAccessError"

fun importDEK :: "buffer \<Rightarrow> error + cryptokey" where
  "importDEK (RawBytes raw) = Inr (AesKey raw)"
| "importDEK (Utf8Bytes _) = Inl DataError"

definition generateDEK :: "bytes \<Rightarrow> cryptokey" where
  "generateDEK random = AesKey random"

definition wrapDEK :: "bytes \<Rightarrow> cryptokey \<Rightarrow> cryptokey \<Rightarrow> error + envelope" where
  "wrapDEK nonce k kek =
     (case exportDEK k of
        Inl e \<Rightarrow> Inl e
      | Inr raw \<Rightarrow> Inr \<lparr>iv = nonce, data = subtle_encrypt nonce kek (RawBytes raw)\<rparr>)"

definition unwrapDEK :: "envelope \<Rightarrow> cryptokey \<Rightarrow> error + cryptokey" where
  "unwrapDEK wrapped kek =
     (case subtle_decrypt (iv wrapped) kek (data wrapped) of
        Inl e \<Rightarrow> Inl e
      | Inr pt \<Rightarrow> importDEK pt)"

definition encryptString :: "bytes \<Rightarrow> js_text \<Rightarrow> cryptokey \<Rightarrow> envelope" where
  "encryptString nonce plain k =
     \<lparr>iv = nonce, data = subtle_encrypt nonce k (TextEncoder_encode plain)\<rparr>"

definition decryptString :: "envelope \<Rightarrow> cryptokey \<Rightarrow> error + js_text" where
  "decryptString enc k =
     (case subtle_decrypt (iv enc) k (data enc) of
        Inl e \<Rightarrow> Inl e
      | Inr pt \<Rightarrow> Inr (TextDecoder_decode pt))"

section \<open>AuthService\<close>

record AccountMeta =
  acc_id :: string
  acc_name :: string
  createdAt :: int
  saltB64 :: bytes
  dekWrappedByAccount :: envelope
  dekWrappedByMaster :: "envelope option"

text \<open>
  \<^verbatim>\<open>localStorage\<close> maps a key to a JSON text. The three shapes the service writes are
  kept apart; reading a key that holds another shape is a failure of the read.
\<close>

datatype stored =
    AccountsJson "AccountMeta list"
  | MasterMetaJson bytes
  | EnvelopeJson envelope

type_synonym local_storage = "string \<rightharpoonup> stored"

definition KEY_ACCOUNTS :: string where
  "KEY_ACCOUNTS = ''diary_accounts_v1''"

definition KEY_MASTER_META :: string where
  "KEY_MASTER_META = ''diary_master_meta_v1''"

definition NOTES_KEY :: "string \<Rightarrow> string" where
  "NOTES_KEY i = ''diary_notes_enc_'' @ i"

text \<open>
  The state of the service and the persistent store it works on. The field
  \<^verbatim>\<open>MASTER_SECRET\<close> is read-only and holds \<^verbatim>\<open>environment.masterSecret || ''\<close>: the empty
  string when no master secret is configured.
\<close>

record AuthService =
  accounts :: "AccountMeta list"
  currentAccountId :: "string option"
  dek :: "cryptokey option"
  MASTER_SECRET :: string
  localStorage :: local_storage

text \<open>The random and clock values one call draws, in the order it draws them.\<close>

record register_entropy =
  uuid :: string
  salt_bytes :: bytes
  dek_bytes :: bytes
  iv_account :: bytes
  iv_master :: bytes
  now :: int
  iv_notes :: bytes

record reset_entropy =
  new_salt_bytes :: bytes
  iv_new_account :: bytes

definition ensureMasterMeta :: "bytes \<Rightarrow> local_storage \<Rightarrow> local_storage" where
  "ensureMasterMeta random ls =
     (case ls KEY_MASTER_META of
        None \<Rightarrow> ls(KEY_MASTER_META \<mapsto> MasterMetaJson random)
      | Some _ \<Rightarrow> ls)"

definition getMasterMeta :: "local_storage \<Rightarrow> error + bytes" where
  "getMasterMeta ls =
     (case ls KEY_MASTER_META of
        None \<Rightarrow> Inl MasterMetaNotInitialized
      | Some (MasterMetaJson s) \<Rightarrow> Inr s
      | Some _ \<Rightarrow> Inl CorruptState)"

definition saveNotesBlob ::
  "bytes \<Rightarrow> string \<Rightarrow> cryptokey \<Rightarrow> js_value list \<Rightarrow> AuthService \<Rightarrow> AuthService" where
  "saveNotesBlob nonce i k notes st =
     st\<lparr>localStorage :=
          (localStorage st)(NOTES_KEY i \<mapsto>
             EnvelopeJson (encryptString nonce (JSON_stringify notes) k))\<rparr>"

definition registerAccount ::
  "register_entropy \<Rightarrow> string \<Rightarrow> string \<Rightarrow> AuthService \<Rightarrow> (error + unit) \<times> AuthService" where
  "registerAccount rnd name accountPassword st =
     (let i = uuid rnd;
          salt = salt_bytes rnd;
          k = generateDEK (dek_bytes rnd);
          kekAcc = deriveKEK accountPassword salt
      in case wrapDEK (iv_account rnd) k kekAcc of
           Inl e \<Rightarrow> (Inl e, st)
         | Inr dekByAcc \<Rightarrow>
            (case getMasterMeta (localStorage st) of
               Inl e \<Rightarrow> (Inl e, st)
             | Inr mm \<Rightarrow>
                (case wrapDEK (iv_master rnd) k (deriveKEK (MASTER_SECRET st) mm) of
                   Inl e \<Rightarrow> (Inl e, st)
                 | Inr dekByMaster \<Rightarrow>
                    (let meta = \<lparr>acc_id = i, acc_name = name, createdAt = now rnd,
                                 saltB64 = salt, dekWrappedByAccount = dekByAcc,
                                 dekWrappedByMaster = Some dekByMaster\<rparr>;
                         updated = meta # accounts st;
                         st1 = st\<lparr>accounts := updated,
                                  localStorage :=
                                    (localStorage st)(KEY_ACCOUNTS \<mapsto> AccountsJson updated)\<rparr>
                     in (Inr (), saveNotesBlob (iv_notes rnd) i k [] st1)))))"

text \<open>
  The body of the \<^verbatim>\<open>try\<close> block of \<^verbatim>\<open>loginWithAccount\<close>: the account path with the
  migration that follows it. The session fields are assigned before the migration
  starts, so a failure of the migration leaves them assigned.
\<close>

definition account_path ::
  "bytes \<Rightarrow> AccountMeta \<Rightarrow> string \<Rightarrow> string \<Rightarrow> AuthService \<Rightarrow> (error + unit) \<times> AuthService" where
  "account_path nonce acc i pw st =
     (case unwrapDEK (dekWrappedByAccount acc) (deriveKEK pw (saltB64 acc)) of
        Inl e \<Rightarrow> (Inl e, st)
      | Inr k \<Rightarrow>
         (let st1 = st\<lparr>dek := Some k, currentAccountId := Some i\<rparr>
          in if MASTER_SECRET st \<noteq> [] \<and> dekWrappedByMaster acc = None then
               (case getMasterMeta (localStorage st1) of
                  Inl e \<Rightarrow> (Inl e, st1)
                | Inr mm \<Rightarrow>
                   (case wrapDEK nonce k (deriveKEK (MASTER_SECRET st) mm) of
                      Inl e \<Rightarrow> (Inl e, st1)
                    | Inr wrappedByMaster \<Rightarrow>
                       (let updated = acc\<lparr>dekWrappedByMaster := Some wrappedByMaster\<rparr>;
                            l = map (\<lambda>a. if acc_id a = acc_id acc then updated else a)
                                  (accounts st1)
                        in (Inr (),
                            st1\<lparr>accounts := l,
                                localStorage :=
                                  (localStorage st1)(KEY_ACCOUNTS \<mapsto> AccountsJson l)\<rparr>))))
             else (Inr (), st1)))"

definition loginWithAccount ::
  "bytes \<Rightarrow> string \<Rightarrow> string \<Rightarrow> AuthService \<Rightarrow> (error + unit) \<times> AuthService" where
  "loginWithAccount nonce i password st =
     (case find (\<lambda>a. acc_id a = i) (accounts st) of
        None \<Rightarrow> (Inl AccountNotFound, st)
      | Some acc \<Rightarrow>
         (let pw = trim password
          in if MASTER_SECRET st \<noteq> [] \<and> pw = MASTER_SECRET st then
               (case dekWrappedByMaster acc of
                  None \<Rightarrow> (Inl MasterNotConfigured, st)
                | Some w \<Rightarrow>
                   (case getMasterMeta (localStorage st) of
                      Inl e \<Rightarrow> (Inl e, st)
                    | Inr mm \<Rightarrow>
                       (case unwrapDEK w (deriveKEK (MASTER_SECRET st) mm) of
                          Inl e \<Rightarrow> (Inl e, st)
                        | Inr k \<Rightarrow> (Inr (), st\<lparr>dek := Some k, currentAccountId := Some i\<rparr>))))
             else
               (case account_path nonce acc i pw st of
                  (Inl _, st') \<Rightarrow> (Inl InvalidPassword, st')
                | (Inr u, st') \<Rightarrow> (Inr u, st'))))"

definition logout :: "AuthService \<Rightarrow> AuthService" where
  "logout st = st\<lparr>currentAccountId := None, dek := None\<rparr>"

text \<open>
  The guard shared by \<^verbatim>\<open>loadNotes\<close> and \<^verbatim>\<open>saveNotes\<close>: a key is held and the current
  account id is a non-empty string (the empty string is falsy).
\<close>

definition session :: "AuthService \<Rightarrow> (string \<times> cryptokey) option" where
  "session st =
     (case (dek st, currentAccountId st) of
        (Some k, Some i) \<Rightarrow> if i = [] then None else Some (i, k)
      | _ \<Rightarrow> None)"

definition loadNotes :: "AuthService \<Rightarrow> error + js_value" where
  "loadNotes st =
     (case session st of
        None \<Rightarrow> Inr (JsArr [])
      | Some (i, k) \<Rightarrow>
         (case localStorage st (NOTES_KEY i) of
            None \<Rightarrow> Inr (JsArr [])
          | Some (EnvelopeJson blob) \<Rightarrow>
             (case decryptString blob k of
                Inl e \<Rightarrow> Inl e
              | Inr json \<Rightarrow> JSON_parse json)
          | Some _ \<Rightarrow> Inl CorruptState))"

definition saveNotes :: "bytes \<Rightarrow> js_value list \<Rightarrow> AuthService \<Rightarrow> (error + unit) \<times> AuthService" where
  "saveNotes nonce notes st =
     (case session st of
        None \<Rightarrow> (Inl NotLoggedIn, st)
      | Some (i, k) \<Rightarrow> (Inr (), saveNotesBlob nonce i k notes st))"

definition resetAccountPassword ::
  "reset_entropy \<Rightarrow> string \<Rightarrow> string \<Rightarrow> AuthService \<Rightarrow> (error + unit) \<times> AuthService" where
  "resetAccountPassword rnd accountId newAccountPassword st =
     (case find (\<lambda>a. acc_id a = accountId) (accounts st) of
        None \<Rightarrow> (Inl AccountNotFound, st)
      | Some acc \<Rightarrow>
         (case dekWrappedByMaster acc of
            None \<Rightarrow> (Inl AccountNotMasterEnabled, st)
          | Some w \<Rightarrow>
             (case getMasterMeta (localStorage st) of
                Inl e \<Rightarrow> (Inl e, st)
              | Inr mm \<Rightarrow>
                 (case unwrapDEK w (deriveKEK (MASTER_SECRET st) mm) of
                    Inl e \<Rightarrow> (Inl e, st)
                  | Inr k \<Rightarrow>
                     (let newSaltB64 = new_salt_bytes rnd;
                          kekNewAcc = deriveKEK newAccountPassword newSaltB64
                      in case wrapDEK (iv_new_account rnd) k kekNewAcc of
                           Inl e \<Rightarrow> (Inl e, st)
                         | Inr dekByNewAcc \<Rightarrow>
                            (let updatedMeta = acc\<lparr>saltB64 := newSaltB64,
                                                   dekWrappedByAccount := dekByNewAcc\<rparr>;
                                 l = map (\<lambda>a. if acc_id a = acc_id acc then updatedMeta else a)
                                       (accounts st)
                             in (Inr (),
                                 st\<lparr>accounts := l,
                                    localStorage :=
                                      (localStorage st)(KEY_ACCOUNTS \<mapsto> AccountsJson l)\<rparr>)))))))"

section \<open>Invariant and sample data\<close>



text \<open>Concrete inputs on which the theorems below are exercised.\<close>

definition demo_storage :: local_storage where
  "demo_storage = Map.empty(KEY_MASTER_META \<mapsto> MasterMetaJson [1, 2, 3])"

definition demo_service :: "string \<Rightarrow> AuthService" where
  "demo_service secret =
     \<lparr>accounts = [], currentAccountId = None, dek = None, MASTER_SECRET = secret,
      localStorage = demo_storage\<rparr>"

definition demo_entropy :: register_entropy where
  "demo_entropy =
     \<lparr>uuid = ''a1'', salt_bytes = [4, 5], dek_bytes = [6, 7, 8], iv_account = [9],
      iv_master = [10], now = 1000, iv_notes = [11]\<rparr>"

definition demo_entropy2 :: register_entropy where
  "demo_entropy2 =
     \<lparr>uuid = ''b2'', salt_bytes = [14, 15], dek_bytes = [16, 17, 18], iv_account = [19],
      iv_master = [20], now = 2000, iv_notes = [21]\<rparr>"

definition demo_registered :: "string \<Rightarrow> AuthService" where
  "demo_registered secret =
     snd (registerAccount demo_entropy ''alice'' ''s1'' (demo_service secret))"

definition demo_account :: "string \<Rightarrow> AccountMeta" where
  "demo_account secret =
     \<lparr>acc_id = ''a1'', acc_name = ''alice'', createdAt = 1000, saltB64 = [4, 5],
      dekWrappedByAccount =
        \<lparr>iv = [9], data = AesGcm (deriveKEK ''s1'' [4, 5]) [9] (RawBytes [6, 7, 8])\<rparr>,
      dekWrappedByMaster =
        Some \<lparr>iv = [10],
              data = AesGcm (deriveKEK secret [1, 2, 3]) [10] (RawBytes [6, 7, 8])\<rparr>\<rparr>"

text \<open>
  An account as an earlier release left it: opened by the password \<open>''s1''\<close>, without
  a master envelope.
\<close>

definition demo_legacy_account :: AccountMeta where
  "demo_legacy_account =
     \<lparr>acc_id = ''a0'', acc_name = ''old'', createdAt = 500, saltB64 = [4, 5],
      dekWrappedByAccount =
        \<lparr>iv = [9], data = AesGcm (deriveKEK ''s1'' [4, 5]) [9] (RawBytes [6, 7, 8])\<rparr>,
      dekWrappedByMaster = None\<rparr>"

definition demo_legacy :: "string \<Rightarrow> local_storage \<Rightarrow> AuthService" where
  "demo_legacy secret ls =
     \<lparr>accounts = [demo_legacy_account], currentAccountId = None, dek = None,
      MASTER_SECRET = secret, localStorage = ls\<rparr>"

definition demo_reset :: reset_entropy where
  "demo_reset = \<lparr>new_salt_bytes = [40, 41], iv_new_account = [42]\<rparr>"

definition demo_note :: js_value where
  "demo_note =
     JsObj [(''id'', JsStr ''n1''), (''title'', JsStr ''Monday''),
            (''dateISO'', JsStr ''2024-01-01''), (''contentHtml'', JsStr ''<p>hello</p>''),
            (''imageDataUrls'', JsArr []), (''isImportant'', JsBool True),
            (''createdAt'', JsNum (Finite 1000)), (''updatedAt'', JsNum (Finite 1001))]"

text \<open>The service with \<open>a1\<close> registered and logged in.\<close>

definition demo_session :: AuthService where
  "demo_session =
     (demo_registered ''M'')\<lparr>dek := Some (AesKey [6, 7, 8]), currentAccountId := Some ''a1''\<rparr>"

section \<open>Auxiliary facts\<close>

lemma keys_distinct [simp]:
  "NOTES_KEY i \<noteq> KEY_ACCOUNTS" "NOTES_KEY i \<noteq> KEY_MASTER_META"
  "KEY_ACCOUNTS \<noteq> KEY_MASTER_META" "KEY_ACCOUNTS \<noteq> NOTES_KEY i"
  "KEY_MASTER_META \<noteq> NOTES_KEY i" "KEY_MASTER_META \<noteq> KEY_ACCOUNTS"
  by (simp_all add: NOTES_KEY_def KEY_ACCOUNTS_def KEY_MASTER_META_def)

lemma wrapDEK_AesKey [simp]:
  "wrapDEK n (AesKey raw) kek = Inr \<lparr>iv = n, data = AesGcm kek n (RawBytes raw)\<rparr>"
  by (simp add: wrapDEK_def subtle_encrypt_def)

lemma unwrapDEK_Inr:
  "unwrapDEK w kek = Inr k \<longleftrightarrow>
     (\<exists>raw. data w = AesGcm kek (iv w) (RawBytes raw) \<and> k = AesKey raw)"
proof (cases "data w")
  case (AesGcm k' n pt)
  then show ?thesis
    by (cases pt) (auto simp: unwrapDEK_def)
qed

lemma unwrapDEK_sealed [simp]:
  "unwrapDEK \<lparr>iv = n, data = AesGcm kek n (RawBytes raw)\<rparr> kek' =
     (if kek = kek' then Inr (AesKey raw) else Inl OperationError)"
  by (simp add: unwrapDEK_def)

lemma getMasterMeta_frame [simp]:
  "getMasterMeta (ls(KEY_ACCOUNTS \<mapsto> v)) = getMasterMeta ls"
  "getMasterMeta (ls(NOTES_KEY i \<mapsto> v)) = getMasterMeta ls"
  by (simp_all add: getMasterMeta_def)

lemma getMasterMeta_demo [simp]: "getMasterMeta demo_storage = Inr [1, 2, 3]"
  by (simp add: getMasterMeta_def demo_storage_def)

lemma registerAccount_fail:
  assumes "getMasterMeta (localStorage st) = Inl e"
  shows "registerAccount rnd name pw st = (Inl e, st)"
  using assms by (simp add: registerAccount_def generateDEK_def Let_def)

lemma registerAccount_ok:
  assumes "getMasterMeta (localStorage st) = Inr mm"
  shows "registerAccount rnd name pw st =
     (Inr (),
      st\<lparr>accounts :=
           \<lparr>acc_id = uuid rnd, acc_name = name, createdAt = now rnd,
            saltB64 = salt_bytes rnd,
            dekWrappedByAccount =
              \<lparr>iv = iv_account rnd,
               data = AesGcm (deriveKEK pw (salt_bytes rnd)) (iv_account rnd)
                        (RawBytes (dek_bytes rnd))\<rparr>,
            dekWrappedByMaster =
              Some \<lparr>iv = iv_master rnd,
                    data = AesGcm (deriveKEK (MASTER_SECRET st) mm) (iv_master rnd)
                             (RawBytes (dek_bytes rnd))\<rparr>\<rparr> # accounts st,
         localStorage :=
           (localStorage st)
             (KEY_ACCOUNTS \<mapsto>
                AccountsJson
                  (\<lparr>acc_id = uuid rnd, acc_name = name, createdAt = now rnd,
                    saltB64 = salt_bytes rnd,
                    dekWrappedByAccount =
                      \<lparr>iv = iv_account rnd,
                       data = AesGcm (deriveKEK pw (salt_bytes rnd)) (iv_account rnd)
                                (RawBytes (dek_bytes rnd))\<rparr>,
                    dekWrappedByMaster =
                      Some \<lparr>iv = iv_master rnd,
                            data = AesGcm (deriveKEK (MASTER_SECRET st) mm) (iv_master rnd)
                                     (RawBytes (dek_bytes rnd))\<rparr>\<rparr> # accounts st),
              NOTES_KEY (uuid rnd) \<mapsto>
                EnvelopeJson
                  \<lparr>iv = iv_notes rnd,
                   data = AesGcm (AesKey (dek_bytes rnd)) (iv_notes rnd)
                            (Utf8Bytes (JsonText (JArr [])))\<rparr>)\<rparr>)"
  using assms
  by (simp add: registerAccount_def generateDEK_def Let_def saveNotesBlob_def
        encryptString_def subtle_encrypt_def TextEncoder_encode_def JSON_stringify_def
        member_json_def)

lemma find_replace:
  assumes "find (\<lambda>a. acc_id a = i) l = Some acc" and "acc_id upd = acc_id acc"
  shows "find (\<lambda>a. acc_id a = i) (map (\<lambda>a. if acc_id a = acc_id acc then upd else a) l)
           = Some upd"
  using assms
proof (induction l)
  case Nil
  then show ?case by simp
next
  case (Cons a l)
  then show ?case by (auto split: if_splits)
qed


lemma session_logout: "session (logout st) = None"
  by (simp add: session_def logout_def)

lemma getMasterMeta_demo_service [simp]:
  "getMasterMeta (localStorage (demo_service secret)) = Inr [1, 2, 3]"
  by (simp add: demo_service_def)

lemma demo_registered_eq:
  "registerAccount demo_entropy ''alice'' ''s1'' (demo_service secret)
     = (Inr (), demo_registered secret)"
  using registerAccount_ok [OF getMasterMeta_demo_service]
  by (simp add: demo_registered_def)

lemma demo_registered_unfold:
  "demo_registered secret =
     \<lparr>accounts =
        [\<lparr>acc_id = ''a1'', acc_name = ''alice'', createdAt = 1000, saltB64 = [4, 5],
          dekWrappedByAccount =
            \<lparr>iv = [9], data = AesGcm (deriveKEK ''s1'' [4, 5]) [9] (RawBytes [6, 7, 8])\<rparr>,
          dekWrappedByMaster =
            Some \<lparr>iv = [10],
                  data = AesGcm (deriveKEK secret [1, 2, 3]) [10] (RawBytes [6, 7, 8])\<rparr>\<rparr>],
      currentAccountId = None, dek = None, MASTER_SECRET = secret,
      localStorage =
        demo_storage
          (KEY_ACCOUNTS \<mapsto>
             AccountsJson
               [\<lparr>acc_id = ''a1'', acc_name = ''alice'', createdAt = 1000, saltB64 = [4, 5],
                 dekWrappedByAccount =
                   \<lparr>iv = [9],
                    data = AesGcm (deriveKEK ''s1'' [4, 5]) [9] (RawBytes [6, 7, 8])\<rparr>,
                 dekWrappedByMaster =
                   Some \<lparr>iv = [10],
                         data = AesGcm (deriveKEK secret [1, 2, 3]) [10]
                                  (RawBytes [6, 7, 8])\<rparr>\<rparr>],
           NOTES_KEY ''a1'' \<mapsto>
             EnvelopeJson
               \<lparr>iv = [11],
                data = AesGcm (AesKey [6, 7, 8]) [11] (Utf8Bytes (JsonText (JArr [])))\<rparr>)\<rparr>"
  unfolding demo_registered_def registerAccount_ok [OF getMasterMeta_demo_service]
  by (simp add: demo_service_def demo_entropy_def)

lemma trim_samples:
  "trim ''s1'' = ''s1''" "trim ''s1 '' = ''s1''" "trim ''wrong'' = ''wrong''"
  "trim ''M'' = ''M''" "trim ''M '' = ''M''" "trim '' x'' = ''x''" "trim ''s2'' = ''s2''"
  "trim [] = []"
  by (simp_all add: trim_def is_white_space_def)

lemma unwrapDEK_Inl: "unwrapDEK w kek = Inl e \<Longrightarrow> e = OperationError \<or> e = DataError"
proof (cases "data w")
  case (AesGcm k' n pt)
  assume "unwrapDEK w kek = Inl e"
  with AesGcm show ?thesis
    by (cases pt) (auto simp: unwrapDEK_def split: if_splits)
qed

lemma getMasterMeta_Inl:
  "getMasterMeta ls = Inl e \<Longrightarrow> e = MasterMetaNotInitialized \<or> e = CorruptState"
  by (auto simp: getMasterMeta_def split: option.splits stored.splits)

lemma unwrapDEK_AesKey: "unwrapDEK w kek = Inr k \<Longrightarrow> \<exists>raw. k = AesKey raw"
  by (auto simp: unwrapDEK_Inr)












lemma demo_registered_fields:
  "accounts (demo_registered secret) = [demo_account secret]"
  "MASTER_SECRET (demo_registered secret) = secret"
  "getMasterMeta (localStorage (demo_registered secret)) = Inr [1, 2, 3]"
  "find (\<lambda>a. acc_id a = ''a1'') (accounts (demo_registered secret)) = Some (demo_account secret)"
  by (simp_all add: demo_registered_unfold demo_account_def)

lemma getMasterMeta_empty [simp]: "getMasterMeta Map.empty = Inl MasterMetaNotInitialized"
  by (simp add: getMasterMeta_def)

lemma demo_account_fields:
  "acc_id (demo_account secret) = ''a1''"
  "saltB64 (demo_account secret) = [4, 5]"
  "dekWrappedByAccount (demo_account secret) =
     \<lparr>iv = [9], data = AesGcm (deriveKEK ''s1'' [4, 5]) [9] (RawBytes [6, 7, 8])\<rparr>"
  "dekWrappedByMaster (demo_account secret) =
     Some \<lparr>iv = [10], data = AesGcm (deriveKEK secret [1, 2, 3]) [10] (RawBytes [6, 7, 8])\<rparr>"
  by (simp_all add: demo_account_def)

lemma demo_legacy_fields:
  "find (\<lambda>a. acc_id a = ''a0'') (accounts (demo_legacy secret ls)) = Some demo_legacy_account"
  "MASTER_SECRET (demo_legacy secret ls) = secret"
  "localStorage (demo_legacy secret ls) = ls"
  "dekWrappedByMaster demo_legacy_account = None"
  "saltB64 demo_legacy_account = [4, 5]"
  "dekWrappedByAccount demo_legacy_account =
     \<lparr>iv = [9], data = AesGcm (deriveKEK ''s1'' [4, 5]) [9] (RawBytes [6, 7, 8])\<rparr>"
  by (simp_all add: demo_legacy_def demo_legacy_account_def)

lemma hmac_key_block_short:
  "length key \<le> 64 \<Longrightarrow> hmac_key_block key = key @ replicate (64 - length key) 0"
  by (simp add: hmac_key_block_def)

lemma utf8_samples:
  "utf8_bytes ''s1'' = [115, 49]"
  "utf8_bytes ''wrong'' = [119, 114, 111, 110, 103]"
  "utf8_bytes [] = []"
  "utf8_bytes ''x'' = [120]"
  "utf8_bytes '' x'' = [32, 120]"
  "utf8_bytes (''s1'' @ [CHR 0x00]) = [115, 49, 0]"
  by (simp_all add: utf8_bytes_def utf8_char_def)

lemma replicate_numeral_unfold:
  "replicate (numeral n) x = x # replicate (pred_numeral n) x"
  by (simp add: numeral_eq_Suc)

lemma kek_samples:
  "deriveKEK ''wrong'' s \<noteq> deriveKEK ''s1'' s'"
  "deriveKEK ''s1'' s \<noteq> deriveKEK ''wrong'' s'"
  "deriveKEK [] s \<noteq> deriveKEK ''s1'' s'"
  "deriveKEK ''s1'' s \<noteq> deriveKEK [] s'"
  "deriveKEK ''x'' s \<noteq> deriveKEK '' x'' s'"
  "deriveKEK '' x'' s \<noteq> deriveKEK ''x'' s'"
  by (simp_all add: deriveKEK_def hmac_key_block_short utf8_samples replicate_numeral_unfold
        del: append.simps)

lemma kek_nul: "deriveKEK (''s1'' @ [CHR 0x00]) s = deriveKEK ''s1'' s"
  by (simp add: deriveKEK_def hmac_key_block_short utf8_samples replicate_numeral_unfold
        del: append.simps)

lemma array_roundtrip:
  assumes "\<And>v. v \<in> set xs \<Longrightarrow> json_safe v \<Longrightarrow> of_json (member_json (to_json v)) = v"
    and "list_all json_safe xs"
  shows "map of_json (map member_json (map to_json xs)) = xs"
  using assms by (induction xs) simp_all

lemma object_roundtrip:
  assumes "\<And>k v. (k, v) \<in> set ps \<Longrightarrow> json_safe v \<Longrightarrow> of_json (member_json (to_json v)) = v"
    and "list_all (json_safe \<circ> snd) ps"
  shows "map (map_prod id of_json) (concat (map property_json (map (map_prod id to_json) ps)))
           = ps"
  using assms
proof (induction ps)
  case Nil
  then show ?case by simp
next
  case (Cons p ps)
  obtain k v where p: "p = (k, v)" by (cases p)
  from Cons.prems(2) p have safe: "json_safe v" by simp
  with Cons.prems(1) [of k v] p have r: "of_json (member_json (to_json v)) = v" by simp
  from safe obtain j where j: "to_json v = Some j" by (cases v) auto
  with r have "map (map_prod id of_json) (property_json (k, to_json v)) = [(k, v)]"
    by (simp add: property_json_def member_json_def)
  moreover have "map (map_prod id of_json)
                   (concat (map property_json (map (map_prod id to_json) ps))) = ps"
  proof (rule Cons.IH)
    fix k' v'
    assume "(k', v') \<in> set ps" and "json_safe v'"
    with Cons.prems(1) [of k' v'] show "of_json (member_json (to_json v')) = v'" by simp
  next
    from Cons.prems(2) show "list_all (json_safe \<circ> snd) ps" by (simp add: comp_def)
  qed
  ultimately show ?case using p by (simp add: id_def)
qed

lemma member_json_to_json:
  "json_safe v \<Longrightarrow> of_json (member_json (to_json v)) = v"
proof (induction v)
  case (JsNum n)
  then show ?case by (cases n) (simp_all add: member_json_def)
next
  case (JsArr xs)
  then have "map of_json (map member_json (map to_json xs)) = xs"
    by (intro array_roundtrip) (simp_all add: list_all_iff)
  then show ?case by (simp add: member_json_def)
next
  case (JsObj ps)
  have "map (map_prod id of_json) (concat (map property_json (map (map_prod id to_json) ps)))
          = ps"
  proof (rule object_roundtrip)
    fix k v
    assume "(k, v) \<in> set ps" and "json_safe v"
    with JsObj.IH [of "(k, v)" v] show "of_json (member_json (to_json v)) = v" by simp
  next
    from JsObj.prems show "list_all (json_safe \<circ> snd) ps"
      by (simp add: list_all_iff)
  qed
  then show ?case by (simp add: member_json_def)
qed (simp_all add: member_json_def)

lemma JSON_roundtrip_safe:
  "list_all json_safe X \<Longrightarrow> JSON_parse (JSON_stringify X) = Inr (JsArr X)"
  using member_json_to_json [of "JsArr X"]
  by (simp add: JSON_stringify_def list_all_iff)

lemma loadNotes_saveNotes:
  "session st = Some (i, k) \<Longrightarrow>
   loadNotes (snd (saveNotes nonce X st)) = JSON_parse (JSON_stringify X)"
  by (auto simp: saveNotes_def loadNotes_def saveNotesBlob_def session_def encryptString_def
        decryptString_def subtle_encrypt_def TextEncoder_encode_def
        split: option.splits if_splits)

lemma demo_session_fields:
  "session demo_session = Some (''a1'', AesKey [6, 7, 8])"
  by (simp add: demo_session_def session_def)

section \<open>Registration followed by login\<close>

text \<open>
  Claim C1, as the code has it. \<^verbatim>\<open>loginWithAccount\<close> trims the supplied secret before
  using it, and what opens the account envelope is the key derived from the trimmed
  secret. For an account just registered with a password \<open>p\<close> that has no white space
  at either end:
  \<^item> a login with \<open>p\<close> succeeds, and so does a login with any secret whose trimmed
    form is the configured master secret or derives, with the account's salt, the key
    that \<open>p\<close> derives; the session then holds the data key generated at registration,
    and that key decrypts the note blob written at registration (to the empty
    collection);
  \<^item> a login with any other secret fails with \<open>InvalidPassword\<close> and leaves the service
    as it was.
\<close>

theorem login_after_register:
  assumes "registerAccount rnd name p st = (Inr (), st1)" and "trim p = p"
  shows "fst (loginWithAccount nonce (uuid rnd) p st1) = Inr () \<and>
         ((MASTER_SECRET st \<noteq> [] \<and> trim s = MASTER_SECRET st) \<or>
          deriveKEK (trim s) (salt_bytes rnd) = deriveKEK p (salt_bytes rnd) \<longrightarrow>
            (\<exists>st2 blob.
               loginWithAccount nonce (uuid rnd) s st1 = (Inr (), st2) \<and>
               dek st2 = Some (generateDEK (dek_bytes rnd)) \<and>
               currentAccountId st2 = Some (uuid rnd) \<and>
               localStorage st1 (NOTES_KEY (uuid rnd)) = Some (EnvelopeJson blob) \<and>
               decryptString blob (generateDEK (dek_bytes rnd)) = Inr (JSON_stringify []))) \<and>
         (\<not> (MASTER_SECRET st \<noteq> [] \<and> trim s = MASTER_SECRET st) \<and>
          deriveKEK (trim s) (salt_bytes rnd) \<noteq> deriveKEK p (salt_bytes rnd) \<longrightarrow>
            loginWithAccount nonce (uuid rnd) s st1 = (Inl InvalidPassword, st1))"
proof (cases "getMasterMeta (localStorage st)")
  case (Inl e)
  with assms show ?thesis by (simp add: registerAccount_fail)
next
  case (Inr mm)
  note ok = registerAccount_ok [OF Inr, of rnd name p]
  from assms ok have st1: "st1 = snd (registerAccount rnd name p st)" by simp
  have own: "fst (loginWithAccount nonce (uuid rnd) p st1) = Inr ()"
    unfolding st1 ok
    using Inr assms(2)
    by (auto simp: loginWithAccount_def account_path_def Let_def)
  have opens: "(MASTER_SECRET st \<noteq> [] \<and> trim s = MASTER_SECRET st) \<or>
          deriveKEK (trim s) (salt_bytes rnd) = deriveKEK p (salt_bytes rnd) \<longrightarrow>
            (\<exists>st2 blob.
               loginWithAccount nonce (uuid rnd) s st1 = (Inr (), st2) \<and>
               dek st2 = Some (generateDEK (dek_bytes rnd)) \<and>
               currentAccountId st2 = Some (uuid rnd) \<and>
               localStorage st1 (NOTES_KEY (uuid rnd)) = Some (EnvelopeJson blob) \<and>
               decryptString blob (generateDEK (dek_bytes rnd)) = Inr (JSON_stringify []))"
    unfolding st1 ok
    using Inr
    by (auto simp: loginWithAccount_def account_path_def generateDEK_def Let_def
          decryptString_def JSON_stringify_def member_json_def)
  have refuses: "\<not> (MASTER_SECRET st \<noteq> [] \<and> trim s = MASTER_SECRET st) \<and>
          deriveKEK (trim s) (salt_bytes rnd) \<noteq> deriveKEK p (salt_bytes rnd) \<longrightarrow>
            loginWithAccount nonce (uuid rnd) s st1 = (Inl InvalidPassword, st1)"
    unfolding st1 ok
    using Inr
    by (auto simp: loginWithAccount_def account_path_def Let_def)
  from own opens refuses show ?thesis by blast
qed

theorem login_after_register_witness:
  "registerAccount demo_entropy ''alice'' ''s1'' (demo_service ''M'')
     = (Inr (), demo_registered ''M'') \<and>
   trim ''s1'' = ''s1'' \<and>
   fst (loginWithAccount [12] ''a1'' ''s1'' (demo_registered ''M'')) = Inr () \<and>
   deriveKEK (trim ''s1 '') [4, 5] = deriveKEK ''s1'' [4, 5] \<and>
   fst (loginWithAccount [12] ''a1'' ''s1 '' (demo_registered ''M'')) = Inr () \<and>
   dek (snd (loginWithAccount [12] ''a1'' ''s1 '' (demo_registered ''M'')))
     = Some (AesKey [6, 7, 8]) \<and>
   trim ''M '' = ''M'' \<and>
   fst (loginWithAccount [12] ''a1'' ''M '' (demo_registered ''M'')) = Inr () \<and>
   trim ''wrong'' \<noteq> ''M'' \<and>
   deriveKEK (trim ''wrong'') [4, 5] \<noteq> deriveKEK ''s1'' [4, 5] \<and>
   loginWithAccount [12] ''a1'' ''wrong'' (demo_registered ''M'')
     = (Inl InvalidPassword, demo_registered ''M'')"
proof -
  note t = trim_samples
  note r = demo_registered_eq [of "''M''"]
  have e: "salt_bytes demo_entropy = [4, 5]" "uuid demo_entropy = ''a1''"
    "dek_bytes demo_entropy = [6, 7, 8]" "MASTER_SECRET (demo_service ''M'') = ''M''"
    by (simp_all add: demo_entropy_def demo_service_def)
  have k: "deriveKEK (trim ''wrong'') [4, 5] \<noteq> deriveKEK ''s1'' [4, 5]"
    by (simp add: t kek_samples)
  note w1 = login_after_register [OF r t(1), of "[12]" "''s1 ''"]
  note w2 = login_after_register [OF r t(1), of "[12]" "''wrong''"]
  from w1 have a: "fst (loginWithAccount [12] ''a1'' ''s1'' (demo_registered ''M'')) = Inr ()"
    by (simp add: e)
  from w1 t have b: "fst (loginWithAccount [12] ''a1'' ''s1 '' (demo_registered ''M'')) = Inr () \<and>
           dek (snd (loginWithAccount [12] ''a1'' ''s1 '' (demo_registered ''M'')))
             = Some (AesKey [6, 7, 8])"
    by (auto simp: e generateDEK_def)
  from w2 t k have c: "loginWithAccount [12] ''a1'' ''wrong'' (demo_registered ''M'')
             = (Inl InvalidPassword, demo_registered ''M'')"
    by (simp add: e)
  from login_after_register [OF r t(1), of "[12]" "''M ''"] t
  have d: "fst (loginWithAccount [12] ''a1'' ''M '' (demo_registered ''M'')) = Inr ()"
    by (auto simp: e)
  from r t a b c d k show ?thesis by simp
qed

text \<open>
  The claim as written fails twice over. The secret \<open>''s1 ''\<close> differs from the
  password \<open>''s1''\<close> and from the master secret \<open>''M''\<close>, and the login succeeds,
  because the secret is trimmed. So does the login with \<open>''s1''\<close> followed by a NUL
  character, because HMAC fills its key with zero bytes.
\<close>

theorem login_trailing_space_counterexample:
  "''s1 '' \<noteq> ''s1'' \<and> ''s1 '' \<noteq> MASTER_SECRET (demo_registered ''M'') \<and>
   fst (loginWithAccount [12] ''a1'' ''s1 '' (demo_registered ''M'')) = Inr () \<and>
   ''s1'' @ [CHR 0x00] \<noteq> ''s1'' \<and>
   ''s1'' @ [CHR 0x00] \<noteq> MASTER_SECRET (demo_registered ''M'') \<and>
   fst (loginWithAccount [12] ''a1'' (''s1'' @ [CHR 0x00]) (demo_registered ''M'')) = Inr ()"
proof -
  have t: "trim (''s1'' @ [CHR 0x00]) = ''s1'' @ [CHR 0x00]"
    by (simp add: trim_def is_white_space_def)
  have a: "fst (loginWithAccount [12] ''a1'' ''s1 '' (demo_registered ''M'')) = Inr ()"
    by (simp add: loginWithAccount_def account_path_def demo_registered_fields
          demo_account_fields trim_samples Let_def)
  have b: "fst (loginWithAccount [12] ''a1'' (''s1'' @ [CHR 0x00]) (demo_registered ''M''))
             = Inr ()"
    by (simp add: loginWithAccount_def account_path_def demo_registered_fields
          demo_account_fields t kek_nul Let_def del: append.simps)
  from a b show ?thesis by (simp add: demo_registered_fields)
qed

section \<open>The two paths of login\<close>

text \<open>
  Claim C2, as the code has it. The supplied secret is trimmed first, and the trimmed
  secret decides the path. For an account found in the registry:
  \<^item> when a master secret is configured and the trimmed secret equals it, only the
    master envelope is tried: without one the call fails with \<open>MasterNotConfigured\<close>
    and nothing changes; with one, the call succeeds exactly when the envelope opens
    under the key derived from the master secret and the master salt, the session then
    holds the opened key, and the registry is untouched; the call never reports
    \<open>InvalidPassword\<close>;
  \<^item> otherwise only the account envelope is tried, under the key derived from the
    trimmed secret and the account's salt: when it does not open, the call fails with
    \<open>InvalidPassword\<close> and nothing changes, whatever the master envelope holds; when
    it opens, the session holds the opened key; the call ends in success or in
    \<open>InvalidPassword\<close>, nothing else.
\<close>

theorem login_dual_path:
  assumes "find (\<lambda>a. acc_id a = i) (accounts st) = Some acc"
  shows
   "(MASTER_SECRET st \<noteq> [] \<and> trim s = MASTER_SECRET st \<longrightarrow>
       (dekWrappedByMaster acc = None \<longrightarrow>
          loginWithAccount nonce i s st = (Inl MasterNotConfigured, st)) \<and>
       (\<forall>w mm. dekWrappedByMaster acc = Some w \<and> getMasterMeta (localStorage st) = Inr mm \<longrightarrow>
          loginWithAccount nonce i s st =
            (case unwrapDEK w (deriveKEK (MASTER_SECRET st) mm) of
               Inl e \<Rightarrow> (Inl e, st)
             | Inr k \<Rightarrow> (Inr (), st\<lparr>dek := Some k, currentAccountId := Some i\<rparr>))) \<and>
       fst (loginWithAccount nonce i s st) \<noteq> Inl InvalidPassword \<and>
       accounts (snd (loginWithAccount nonce i s st)) = accounts st \<and>
       localStorage (snd (loginWithAccount nonce i s st)) = localStorage st) \<and>
    (\<not> (MASTER_SECRET st \<noteq> [] \<and> trim s = MASTER_SECRET st) \<longrightarrow>
       (\<forall>e. unwrapDEK (dekWrappedByAccount acc) (deriveKEK (trim s) (saltB64 acc)) = Inl e \<longrightarrow>
          loginWithAccount nonce i s st = (Inl InvalidPassword, st)) \<and>
       (\<forall>k. unwrapDEK (dekWrappedByAccount acc) (deriveKEK (trim s) (saltB64 acc)) = Inr k \<longrightarrow>
          dek (snd (loginWithAccount nonce i s st)) = Some k \<and>
          currentAccountId (snd (loginWithAccount nonce i s st)) = Some i) \<and>
       (fst (loginWithAccount nonce i s st) = Inr () \<or>
        fst (loginWithAccount nonce i s st) = Inl InvalidPassword))"
proof (intro conjI impI)
  assume m: "MASTER_SECRET st \<noteq> [] \<and> trim s = MASTER_SECRET st"
  show "dekWrappedByMaster acc = None \<Longrightarrow>
        loginWithAccount nonce i s st = (Inl MasterNotConfigured, st)"
    using assms m by (simp add: loginWithAccount_def)
  show "\<forall>w mm. dekWrappedByMaster acc = Some w \<and> getMasterMeta (localStorage st) = Inr mm \<longrightarrow>
          loginWithAccount nonce i s st =
            (case unwrapDEK w (deriveKEK (MASTER_SECRET st) mm) of
               Inl e \<Rightarrow> (Inl e, st)
             | Inr k \<Rightarrow> (Inr (), st\<lparr>dek := Some k, currentAccountId := Some i\<rparr>))"
    using assms m by (simp add: loginWithAccount_def)
  show "fst (loginWithAccount nonce i s st) \<noteq> Inl InvalidPassword"
    using assms m
    by (auto simp: loginWithAccount_def split: option.splits sum.splits
          dest: unwrapDEK_Inl getMasterMeta_Inl)
  show "accounts (snd (loginWithAccount nonce i s st)) = accounts st"
    using assms m by (auto simp: loginWithAccount_def split: option.splits sum.splits)
  show "localStorage (snd (loginWithAccount nonce i s st)) = localStorage st"
    using assms m by (auto simp: loginWithAccount_def split: option.splits sum.splits)
next
  assume m: "\<not> (MASTER_SECRET st \<noteq> [] \<and> trim s = MASTER_SECRET st)"
  show "\<forall>e. unwrapDEK (dekWrappedByAccount acc) (deriveKEK (trim s) (saltB64 acc)) = Inl e \<longrightarrow>
          loginWithAccount nonce i s st = (Inl InvalidPassword, st)"
    using assms m by (auto simp: loginWithAccount_def account_path_def)
  show "\<forall>k. unwrapDEK (dekWrappedByAccount acc) (deriveKEK (trim s) (saltB64 acc)) = Inr k \<longrightarrow>
          dek (snd (loginWithAccount nonce i s st)) = Some k \<and>
          currentAccountId (snd (loginWithAccount nonce i s st)) = Some i"
    using assms m
    by (auto simp: loginWithAccount_def account_path_def Let_def split: sum.splits)
  show "fst (loginWithAccount nonce i s st) = Inr () \<or>
        fst (loginWithAccount nonce i s st) = Inl InvalidPassword"
    using assms m
    by (auto simp: loginWithAccount_def Let_def split: sum.splits prod.splits)
qed

theorem login_dual_path_witness:
  "find (\<lambda>a. acc_id a = ''a1'') (accounts (demo_registered ''M'')) = Some (demo_account ''M'') \<and>
   MASTER_SECRET (demo_registered ''M'') \<noteq> [] \<and>
   trim ''M '' = MASTER_SECRET (demo_registered ''M'') \<and>
   loginWithAccount [12] ''a1'' ''M '' (demo_registered ''M'')
     = (Inr (), (demo_registered ''M'')\<lparr>dek := Some (AesKey [6, 7, 8]),
                                         currentAccountId := Some ''a1''\<rparr>) \<and>
   trim ''wrong'' \<noteq> MASTER_SECRET (demo_registered ''M'') \<and>
   unwrapDEK (dekWrappedByAccount (demo_account ''M''))
      (deriveKEK (trim ''wrong'') (saltB64 (demo_account ''M''))) = Inl OperationError \<and>
   loginWithAccount [12] ''a1'' ''wrong'' (demo_registered ''M'')
     = (Inl InvalidPassword, demo_registered ''M'') \<and>
   unwrapDEK (dekWrappedByAccount (demo_account ''M''))
      (deriveKEK (trim ''s1 '') (saltB64 (demo_account ''M''))) = Inr (AesKey [6, 7, 8]) \<and>
   dek (snd (loginWithAccount [12] ''a1'' ''s1 '' (demo_registered ''M'')))
     = Some (AesKey [6, 7, 8]) \<and>
   find (\<lambda>a. acc_id a = ''a0'') (accounts (demo_legacy ''M'' demo_storage))
     = Some demo_legacy_account \<and>
   dekWrappedByMaster demo_legacy_account = None \<and>
   loginWithAccount [12] ''a0'' ''M '' (demo_legacy ''M'' demo_storage)
     = (Inl MasterNotConfigured, demo_legacy ''M'' demo_storage)"
proof -
  have v: "unwrapDEK (dekWrappedByAccount (demo_account ''M''))
      (deriveKEK (trim ''s1 '') (saltB64 (demo_account ''M''))) = Inr (AesKey [6, 7, 8])"
    by (simp add: demo_account_fields trim_samples kek_samples)
  note f = demo_registered_fields(4) [of "''M''"]
  note g = demo_legacy_fields(1) [of "''M''" demo_storage]
  have u: "unwrapDEK (dekWrappedByAccount (demo_account ''M''))
      (deriveKEK (trim ''wrong'') (saltB64 (demo_account ''M''))) = Inl OperationError"
    by (simp add: demo_account_fields trim_samples kek_samples)
  from login_dual_path [OF f, of "''M ''" "[12]"]
  have a: "loginWithAccount [12] ''a1'' ''M '' (demo_registered ''M'')
     = (Inr (), (demo_registered ''M'')\<lparr>dek := Some (AesKey [6, 7, 8]),
                                         currentAccountId := Some ''a1''\<rparr>)"
    by (simp add: demo_registered_fields demo_account_fields trim_samples kek_samples)
  from login_dual_path [OF f, of "''wrong''" "[12]"] u
  have b: "loginWithAccount [12] ''a1'' ''wrong'' (demo_registered ''M'')
     = (Inl InvalidPassword, demo_registered ''M'')"
    by (simp add: demo_registered_fields trim_samples)
  from login_dual_path [OF g, of "''M ''" "[12]"]
  have c: "loginWithAccount [12] ''a0'' ''M '' (demo_legacy ''M'' demo_storage)
     = (Inl MasterNotConfigured, demo_legacy ''M'' demo_storage)"
    by (simp add: demo_legacy_fields trim_samples)
  from login_dual_path [OF f, of "''s1 ''" "[12]"] v
  have d: "dek (snd (loginWithAccount [12] ''a1'' ''s1 '' (demo_registered ''M'')))
     = Some (AesKey [6, 7, 8])"
    by (simp add: demo_registered_fields trim_samples)
  from f g u v a b c d show ?thesis
    by (simp add: demo_registered_fields demo_legacy_fields trim_samples)
qed

text \<open>
  The claim as written fails: \<open>''M ''\<close> is not the master secret \<open>''M''\<close>, and the
  login of an account without a master envelope still answers \<open>MasterNotConfigured\<close>,
  which only the master path can produce.
\<close>

theorem master_path_by_trimmed_secret_counterexample:
  "''M '' \<noteq> MASTER_SECRET (demo_legacy ''M'' demo_storage) \<and>
   fst (loginWithAccount [12] ''a0'' ''M '' (demo_legacy ''M'' demo_storage))
     = Inl MasterNotConfigured"
  by (simp add: loginWithAccount_def demo_legacy_fields trim_samples)

section \<open>Password reset\<close>

text \<open>
  Claim C3, at a failing input. The account \<open>a1\<close> has a master envelope and the master
  secret \<open>''M''\<close> is configured. The reset to the new password \<open>'' x''\<close> succeeds: it
  wraps the data key under the key derived from \<open>'' x''\<close> as given. The login with
  that same new password trims it to \<open>''x''\<close>, derives another key, and is refused with
  \<open>InvalidPassword\<close>. The master login still opens the account, to the data key it
  held before.
\<close>

theorem reset_untrimmed_password_lockout:
  "fst (resetAccountPassword demo_reset ''a1'' '' x'' (demo_registered ''M'')) = Inr () \<and>
   fst (loginWithAccount [12] ''a1'' '' x''
          (snd (resetAccountPassword demo_reset ''a1'' '' x'' (demo_registered ''M''))))
     = Inl InvalidPassword \<and>
   dek (snd (loginWithAccount [12] ''a1'' ''M''
          (snd (resetAccountPassword demo_reset ''a1'' '' x'' (demo_registered ''M'')))))
     = Some (AesKey [6, 7, 8]) \<and>
   dek (snd (loginWithAccount [12] ''a1'' ''M'' (demo_registered ''M''))) = Some (AesKey [6, 7, 8])"
  by (simp add: resetAccountPassword_def loginWithAccount_def account_path_def
        demo_registered_fields demo_account_fields demo_reset_def trim_samples kek_samples
        Let_def)

section \<open>Agreement of the two envelopes\<close>



section \<open>A failing migration\<close>

text \<open>
  Claim C6, at a failing input. The account \<open>a0\<close> has no master envelope, a master
  secret is configured, and the persistent store no longer holds the master salt. The
  password \<open>''s1''\<close> opens the account envelope, the session fields are assigned, the
  migration fails on reading the master salt, and the failure is caught by the handler
  meant for a wrong password: the call ends in \<open>InvalidPassword\<close> with the session
  fields still assigned. With the master salt in place the same login succeeds.
\<close>

theorem login_fails_when_migration_fails:
  "unwrapDEK (dekWrappedByAccount demo_legacy_account)
      (deriveKEK ''s1'' (saltB64 demo_legacy_account)) = Inr (AesKey [6, 7, 8]) \<and>
   loginWithAccount [12] ''a0'' ''s1'' (demo_legacy ''M'' Map.empty)
     = (Inl InvalidPassword,
        (demo_legacy ''M'' Map.empty)\<lparr>dek := Some (AesKey [6, 7, 8]),
                                        currentAccountId := Some ''a0''\<rparr>) \<and>
   fst (loginWithAccount [12] ''a0'' ''s1'' (demo_legacy ''M'' demo_storage)) = Inr ()"
  by (simp add: loginWithAccount_def account_path_def demo_legacy_fields trim_samples
        kek_samples Let_def)

section \<open>No master secret configured\<close>

text \<open>
  Claim C7, as the code has it. With no master secret configured, login never takes the
  master path: every supplied secret, the empty one included, is tried as the account
  password only, so the call ends in success, \<open>InvalidPassword\<close> or
  \<open>AccountNotFound\<close>, never in \<open>MasterNotConfigured\<close>. Password reset makes no check
  of the configuration and never fails with \<open>MasterNotConfigured\<close> either.
\<close>

theorem no_master_secret:
  "MASTER_SECRET st = [] \<Longrightarrow>
     loginWithAccount nonce i s st =
       (case find (\<lambda>a. acc_id a = i) (accounts st) of
          None \<Rightarrow> (Inl AccountNotFound, st)
        | Some acc \<Rightarrow>
           (case unwrapDEK (dekWrappedByAccount acc) (deriveKEK (trim s) (saltB64 acc)) of
              Inl e \<Rightarrow> (Inl InvalidPassword, st)
            | Inr k \<Rightarrow> (Inr (), st\<lparr>dek := Some k, currentAccountId := Some i\<rparr>))) \<and>
     fst (loginWithAccount nonce i s st) \<noteq> Inl MasterNotConfigured \<and>
     fst (resetAccountPassword rnd i pw st) \<noteq> Inl MasterNotConfigured"
proof (intro conjI)
  assume m: "MASTER_SECRET st = []"
  then show "loginWithAccount nonce i s st =
       (case find (\<lambda>a. acc_id a = i) (accounts st) of
          None \<Rightarrow> (Inl AccountNotFound, st)
        | Some acc \<Rightarrow>
           (case unwrapDEK (dekWrappedByAccount acc) (deriveKEK (trim s) (saltB64 acc)) of
              Inl e \<Rightarrow> (Inl InvalidPassword, st)
            | Inr k \<Rightarrow> (Inr (), st\<lparr>dek := Some k, currentAccountId := Some i\<rparr>)))"
    by (simp add: loginWithAccount_def account_path_def Let_def split: option.splits sum.splits)
  then show "fst (loginWithAccount nonce i s st) \<noteq> Inl MasterNotConfigured"
    by (simp split: option.splits sum.splits)
  show "fst (resetAccountPassword rnd i pw st) \<noteq> Inl MasterNotConfigured"
    by (auto simp: resetAccountPassword_def Let_def split: option.splits sum.splits
          dest: unwrapDEK_Inl getMasterMeta_Inl unwrapDEK_AesKey)
qed


theorem no_master_secret_witness:
  "MASTER_SECRET (demo_registered []) = [] \<and>
   loginWithAccount [12] ''a1'' [] (demo_registered [])
     = (Inl InvalidPassword, demo_registered []) \<and>
   fst (loginWithAccount [12] ''a1'' ''s1'' (demo_registered [])) = Inr () \<and>
   fst (resetAccountPassword demo_reset ''a1'' ''s2'' (demo_registered []))
     \<noteq> Inl MasterNotConfigured"
proof -
  note m = demo_registered_fields(2) [of "[]"]
  from no_master_secret [OF m, of "[12]" "''a1''" "[]" demo_reset "''s2''"]
       no_master_secret [OF m, of "[12]" "''a1''" "''s1''" demo_reset "''s2''"] m
  show ?thesis
    by (simp add: demo_registered_fields demo_account_fields trim_samples kek_samples)
qed

text \<open>
  The claim as written fails: with no master secret configured, the reset of an account
  registered under that configuration succeeds.
\<close>

theorem reset_without_master_secret_counterexample:
  "MASTER_SECRET (demo_registered []) = [] \<and>
   fst (resetAccountPassword demo_reset ''a1'' ''s2'' (demo_registered [])) = Inr ()"
  by (simp add: resetAccountPassword_def demo_registered_fields demo_account_fields
        kek_samples Let_def)

section \<open>Notes without a session\<close>

text \<open>
  Claim C5, as the code has it. With no active session, and in particular after
  \<^verbatim>\<open>logout\<close>, \<^verbatim>\<open>loadNotes\<close> does not fail: its guard returns the empty collection.
\<close>

theorem loadNotes_without_session:
  "loadNotes (logout st) = Inr (JsArr []) \<and>
   (session st = None \<longrightarrow> loadNotes st = Inr (JsArr []))"
  by (simp add: loadNotes_def session_logout)

theorem loadNotes_without_session_witness:
  "session (demo_service ''M'') = None \<and>
   loadNotes (demo_service ''M'') = Inr (JsArr []) \<and>
   loadNotes (logout (demo_service ''M'')) = Inr (JsArr [])"
proof -
  have s: "session (demo_service ''M'') = None"
    by (simp add: session_def demo_service_def)
  with loadNotes_without_session [of "demo_service ''M''"] show ?thesis by simp
qed

text \<open>After a logout the call returns normally, so it does not fail with \<open>NotLoggedIn\<close>.\<close>

theorem loadNotes_after_logout_counterexample:
  "session (logout (demo_registered ''M'')) = None \<and>
   loadNotes (logout (demo_registered ''M'')) \<noteq> Inl NotLoggedIn"
  by (simp add: loadNotes_def session_logout)

section \<open>Saving and loading notes\<close>

text \<open>
  Claim C8, as the code has it. With an active session (the guard of \<^verbatim>\<open>saveNotes\<close>
  passes: a key is held and the current account id is non-empty), saving a collection
  \<open>X\<close> succeeds, and loading afterwards returns what \<^verbatim>\<open>JSON.parse\<close> makes of
  \<^verbatim>\<open>JSON.stringify(X)\<close>. That is \<open>X\<close> itself for every collection that JSON denotes as
  it is, the empty one included; in the others, \<^verbatim>\<open>undefined\<close> and the numbers that are
  not finite come back as \<^verbatim>\<open>null\<close> or are left out.
\<close>

theorem save_then_load:
  "session st = Some (i, k) \<Longrightarrow>
   fst (saveNotes nonce X st) = Inr () \<and>
   loadNotes (snd (saveNotes nonce X st)) = JSON_parse (JSON_stringify X) \<and>
   (list_all json_safe X \<longrightarrow> loadNotes (snd (saveNotes nonce X st)) = Inr (JsArr X))"
proof -
  assume s: "session st = Some (i, k)"
  then have a: "fst (saveNotes nonce X st) = Inr ()"
    by (simp add: saveNotes_def)
  from s have b: "loadNotes (snd (saveNotes nonce X st)) = JSON_parse (JSON_stringify X)"
    by (rule loadNotes_saveNotes)
  from a b JSON_roundtrip_safe [of X] show ?thesis by simp
qed

theorem save_then_load_witness:
  "session demo_session = Some (''a1'', AesKey [6, 7, 8]) \<and>
   list_all json_safe [demo_note, demo_note] \<and>
   loadNotes (snd (saveNotes [30] [demo_note, demo_note] demo_session))
     = Inr (JsArr [demo_note, demo_note]) \<and>
   list_all json_safe [] \<and>
   loadNotes (snd (saveNotes [30] [] demo_session)) = Inr (JsArr [])"
proof -
  note s = demo_session_fields
  have j: "list_all json_safe [demo_note, demo_note]" "list_all json_safe []"
    by (simp_all add: demo_note_def)
  from save_then_load [OF s, of "[30]" "[demo_note, demo_note]"] j(1)
  have a: "loadNotes (snd (saveNotes [30] [demo_note, demo_note] demo_session))
             = Inr (JsArr [demo_note, demo_note])"
    by blast
  from save_then_load [OF s, of "[30]" "[]"] j(2)
  have b: "loadNotes (snd (saveNotes [30] [] demo_session)) = Inr (JsArr [])"
    by blast
  from s j a b show ?thesis by blast
qed

text \<open>
  The claim as written fails: a collection holding \<^verbatim>\<open>NaN\<close> comes back holding
  \<^verbatim>\<open>null\<close>, and a note whose \<^verbatim>\<open>imageDataUrls\<close> is \<^verbatim>\<open>undefined\<close> comes back without that
  property.
\<close>

theorem save_then_load_counterexample:
  "session demo_session = Some (''a1'', AesKey [6, 7, 8]) \<and>
   loadNotes (snd (saveNotes [30] [JsNum NaN] demo_session)) = Inr (JsArr [JsNull]) \<and>
   JsArr [JsNull] \<noteq> JsArr [JsNum NaN] \<and>
   loadNotes (snd (saveNotes [30]
       [JsObj [(''id'', JsStr ''n1''), (''imageDataUrls'', JsUndefined)]] demo_session))
     = Inr (JsArr [JsObj [(''id'', JsStr ''n1'')]])"
  by (simp add: demo_session_fields loadNotes_saveNotes [OF demo_session_fields]
        JSON_stringify_def member_json_def property_json_def)

section \<open>The registry after registration\<close>

text \<open>
  Claim C9, as the code has it. A successful registration puts the new record at the
  front of the registry: the records already there keep their order and follow it. The
  same list is written to the persistent store under the registry key.
\<close>

theorem register_prepends:
  "registerAccount rnd name pw st = (Inr (), st1) \<Longrightarrow>
   \<exists>meta. acc_id meta = uuid rnd \<and> acc_name meta = name \<and>
          accounts st1 = meta # accounts st \<and>
          localStorage st1 KEY_ACCOUNTS = Some (AccountsJson (meta # accounts st))"
proof (cases "getMasterMeta (localStorage st)")
  case (Inl e)
  assume "registerAccount rnd name pw st = (Inr (), st1)"
  with Inl show ?thesis by (simp add: registerAccount_fail)
next
  case (Inr mm)
  assume "registerAccount rnd name pw st = (Inr (), st1)"
  with registerAccount_ok [OF Inr, of rnd name pw] show ?thesis by auto
qed

theorem register_prepends_witness:
  "registerAccount demo_entropy ''alice'' ''s1'' (demo_service ''M'')
     = (Inr (), demo_registered ''M'') \<and>
   (\<exists>meta. acc_id meta = ''a1'' \<and> acc_name meta = ''alice'' \<and>
           accounts (demo_registered ''M'') = [meta] \<and>
           localStorage (demo_registered ''M'') KEY_ACCOUNTS = Some (AccountsJson [meta]))"
  using register_prepends [OF demo_registered_eq [of "''M''"]] demo_registered_eq [of "''M''"]
  by (simp add: demo_entropy_def demo_service_def)

text \<open>
  Registering \<open>b2\<close> after \<open>a1\<close> leaves \<open>b2\<close> first and \<open>a1\<close> last, in memory and in
  the persistent store: the new record is not at the end.
\<close>

theorem register_order_counterexample:
  "map acc_id (accounts (snd (registerAccount demo_entropy2 ''bob'' ''s2'' (demo_registered ''M''))))
     = [''b2'', ''a1''] \<and>
   map acc_id (accounts (demo_registered ''M'')) = [''a1''] \<and>
   localStorage (snd (registerAccount demo_entropy2 ''bob'' ''s2'' (demo_registered ''M'')))
       KEY_ACCOUNTS
     = Some (AccountsJson
         (accounts (snd (registerAccount demo_entropy2 ''bob'' ''s2'' (demo_registered ''M'')))))"
proof -
  have b: "getMasterMeta (localStorage (demo_registered ''M'')) = Inr [1, 2, 3]"
    by (simp add: demo_registered_unfold)
  have c: "map acc_id (accounts (demo_registered ''M'')) = [''a1'']"
    by (simp add: demo_registered_unfold)
  show ?thesis
    by (simp add: registerAccount_ok [OF b] c demo_entropy2_def)
qed

section \<open>The master envelope of a new account\<close>

text \<open>
  Claim C10. Registration needs the master salt: when it cannot be read the call fails
  and nothing changes. Otherwise the call succeeds and the record it adds always
  carries a master envelope, which opens under the key derived from the configured
  master secret string (whatever that string is, the empty one included) and the master
  salt, to the data key generated for the account.
\<close>

theorem register_always_wraps_for_master:
  "(\<forall>e. getMasterMeta (localStorage st) = Inl e \<longrightarrow>
        registerAccount rnd name pw st = (Inl e, st)) \<and>
   (\<forall>mm. getMasterMeta (localStorage st) = Inr mm \<longrightarrow>
      (\<exists>meta w.
         fst (registerAccount rnd name pw st) = Inr () \<and>
         accounts (snd (registerAccount rnd name pw st)) = meta # accounts st \<and>
         acc_id meta = uuid rnd \<and>
         dekWrappedByMaster meta = Some w \<and>
         unwrapDEK w (deriveKEK (MASTER_SECRET st) mm) = Inr (generateDEK (dek_bytes rnd))))"
  by (auto simp: registerAccount_fail registerAccount_ok generateDEK_def)

theorem register_always_wraps_for_master_witness:
  "getMasterMeta (localStorage (demo_service [])) = Inr [1, 2, 3] \<and>
   MASTER_SECRET (demo_service []) = [] \<and>
   (\<exists>meta w.
      fst (registerAccount demo_entropy ''alice'' ''s1'' (demo_service [])) = Inr () \<and>
      accounts (snd (registerAccount demo_entropy ''alice'' ''s1'' (demo_service []))) = [meta] \<and>
      acc_id meta = ''a1'' \<and>
      dekWrappedByMaster meta = Some w \<and>
      unwrapDEK w (deriveKEK [] [1, 2, 3]) = Inr (AesKey [6, 7, 8])) \<and>
   getMasterMeta (localStorage (demo_legacy ''M'' Map.empty)) = Inl MasterMetaNotInitialized \<and>
   registerAccount demo_entropy ''alice'' ''s1'' (demo_legacy ''M'' Map.empty)
     = (Inl MasterMetaNotInitialized, demo_legacy ''M'' Map.empty)"
proof -
  have a: "getMasterMeta (localStorage (demo_service [])) = Inr [1, 2, 3]"
    by simp
  have b: "MASTER_SECRET (demo_service []) = []" "accounts (demo_service []) = []"
    by (simp_all add: demo_service_def)
  have c: "getMasterMeta (localStorage (demo_legacy ''M'' Map.empty)) = Inl MasterMetaNotInitialized"
    by (simp add: demo_legacy_fields)
  from register_always_wraps_for_master [of "demo_service []" demo_entropy "''alice''" "''s1''"] a
  have "\<exists>meta w.
      fst (registerAccount demo_entropy ''alice'' ''s1'' (demo_service [])) = Inr () \<and>
      accounts (snd (registerAccount demo_entropy ''alice'' ''s1'' (demo_service [])))
        = meta # accounts (demo_service []) \<and>
      acc_id meta = uuid demo_entropy \<and>
      dekWrappedByMaster meta = Some w \<and>
      unwrapDEK w (deriveKEK (MASTER_SECRET (demo_service [])) [1, 2, 3])
        = Inr (generateDEK (dek_bytes demo_entropy))"
    by simp
  then have d: "\<exists>meta w.
      fst (registerAccount demo_entropy ''alice'' ''s1'' (demo_service [])) = Inr () \<and>
      accounts (snd (registerAccount demo_entropy ''alice'' ''s1'' (demo_service []))) = [meta] \<and>
      acc_id meta = ''a1'' \<and>
      dekWrappedByMaster meta = Some w \<and>
      unwrapDEK w (deriveKEK [] [1, 2, 3]) = Inr (AesKey [6, 7, 8])"
    using b by (simp add: demo_entropy_def generateDEK_def)
  from register_always_wraps_for_master
         [of "demo_legacy ''M'' Map.empty" demo_entropy "''alice''" "''s1''"] c
  have e: "registerAccount demo_entropy ''alice'' ''s1'' (demo_legacy ''M'' Map.empty)
     = (Inl MasterMetaNotInitialized, demo_legacy ''M'' Map.empty)"
    by simp
  from a b c d e show ?thesis by simp
qed

end
